theory Spec2Isabelle
  imports Complex_Main "HOL-Library.Sublist"
begin

section \<open>Python values\<close>

text \<open>
  A Python \<open>str\<close> is a sequence of Unicode code points, so a string is a list of natural
  numbers. The Cyrillic literals of the source are written as their code points, with a
  transliteration beside each; ASCII literals go through \<open>ascii\<close>.

  Python's \<open>float\<close> arithmetic is modelled by exact arithmetic on \<open>real\<close>: the constants
  0.4, 0.3, ... are the decimal fractions the source writes, and rounding is not modelled.
\<close>

type_synonym str = "nat list"

definition ascii :: "string \<Rightarrow> str" where
  "ascii s = map of_char s"

text \<open>
  \<open>str.lower()\<close> on the Basic Latin and Cyrillic blocks (the alphabets of the rule tables):
  A-Z, U+0410..U+042F and U+0400..U+040F move to their lower-case letters, every other
  code point is kept. The properties below use of \<open>py_lower\<close> only that it is a function
  and that it maps no other string than the empty one to the empty string; the concrete
  inputs they evaluate are in lower case already.
\<close>

definition lower_cp :: "nat \<Rightarrow> nat" where
  "lower_cp c =
     (if 65 \<le> c \<and> c \<le> 90 then c + 32
      else if 1040 \<le> c \<and> c \<le> 1071 then c + 32
      else if 1024 \<le> c \<and> c \<le> 1039 then c + 80
      else c)"

definition py_lower :: "str \<Rightarrow> str" where
  "py_lower s = map lower_cp s"

text \<open>\<open>needle in haystack\<close> on strings: contiguous substring.\<close>

definition py_in :: "str \<Rightarrow> str \<Rightarrow> bool" where
  "py_in needle haystack = sublist needle haystack"

text \<open>\<open>any(keyword in text.lower() for keyword in keywords)\<close>\<close>

definition any_keyword_in :: "str list \<Rightarrow> str \<Rightarrow> bool" where
  "any_keyword_in kws text = list_ex (\<lambda>keyword. py_in keyword (py_lower text)) kws"

text \<open>\<open>sum(1 for keyword in keywords if keyword in text_lower)\<close>\<close>

definition count_matches :: "str list \<Rightarrow> str \<Rightarrow> nat" where
  "count_matches kws text_lower = length (filter (\<lambda>keyword. py_in keyword text_lower) kws)"

text \<open>The code points on which \<open>str.split()\<close> (no separator) splits: \<open>str.isspace\<close>.\<close>

definition is_space :: "nat \<Rightarrow> bool" where
  "is_space c =
     ((9 \<le> c \<and> c \<le> 13) \<or> (28 \<le> c \<and> c \<le> 32) \<or> c = 133 \<or> c = 160 \<or> c = 5760
      \<or> (8192 \<le> c \<and> c \<le> 8202) \<or> c = 8232 \<or> c = 8233 \<or> c = 8239 \<or> c = 8287
      \<or> c = 12288)"

fun split_acc :: "str \<Rightarrow> str \<Rightarrow> str list" where
  "split_acc w [] = (if w = [] then [] else [w])"
| "split_acc w (c # cs) =
     (if is_space c then (if w = [] then split_acc [] cs else w # split_acc [] cs)
      else split_acc (w @ [c]) cs)"

definition py_split :: "str \<Rightarrow> str list" where
  "py_split s = split_acc [] s"

text \<open>
  The emoji character class of both modules:
  U+1F600..U+1F64F, U+1F300..U+1F5FF, U+1F680..U+1F6FF, U+1F1E0..U+1F1FF;
  \<open>len(emoji_pattern.findall(text))\<close> counts the code points in it.
\<close>

definition is_emoji_cp :: "nat \<Rightarrow> bool" where
  "is_emoji_cp c =
     ((128512 \<le> c \<and> c \<le> 128591) \<or> (127744 \<le> c \<and> c \<le> 128511)
      \<or> (128640 \<le> c \<and> c \<le> 128767) \<or> (127462 \<le> c \<and> c \<le> 127487))"

definition count_emojis :: "str \<Rightarrow> nat" where
  "count_emojis text = length (filter is_emoji_cp text)"

datatype py_error = KeyError str | ZeroDivisionError

text \<open>\<open>a / b\<close> on numbers raises on a zero divisor.\<close>

definition py_truediv :: "real \<Rightarrow> real \<Rightarrow> py_error + real" where
  "py_truediv a b = (if b = 0 then Inl ZeroDivisionError else Inr (a / b))"

text \<open>
  \<open>collections.Counter\<close>: counts in order of first occurrence; \<open>most_common(n)\<close> is the
  first \<open>n\<close> entries of the stable sort by descending count.
\<close>

fun counter_add :: "'a \<Rightarrow> ('a \<times> nat) list \<Rightarrow> ('a \<times> nat) list" where
  "counter_add x [] = [(x, 1)]"
| "counter_add x ((y, n) # ys) =
     (if x = y then (y, Suc n) # ys else (y, n) # counter_add x ys)"

definition Counter :: "'a list \<Rightarrow> ('a \<times> nat) list" where
  "Counter xs = foldl (\<lambda>c x. counter_add x c) [] xs"

definition most_common :: "nat \<Rightarrow> ('a \<times> nat) list \<Rightarrow> ('a \<times> nat) list" where
  "most_common n c = take n (sort_key (\<lambda>p. - int (snd p)) c)"

text \<open>\<open>xs[-n:]\<close>\<close>

definition last_n :: "nat \<Rightarrow> 'a list \<Rightarrow> 'a list" where
  "last_n n xs = drop (length xs - n) xs"

text \<open>\<open>sep.join(parts)\<close>\<close>

fun py_join :: "str \<Rightarrow> str list \<Rightarrow> str" where
  "py_join sep [] = []"
| "py_join sep [p] = p"
| "py_join sep (p # q # ps) = p @ sep @ py_join sep (q # ps)"

section \<open>The context router (\<open>context_router.py\<close>)\<close>

text \<open>
  The methods of \<open>ContextRouter\<close> take the rule table \<open>self.context_rules\<close> as their first
  argument; a leading underscore of a method name is dropped. A dictionary whose keys are
  optional is a record of options (the key \<open>'keywords'\<close> is the field
  \<open>context_keywords\<close>); the rule table itself is an association list in the
  dictionary's insertion order.
\<close>

record context_rule =
  context_keywords :: "str list"
  avoid_keywords :: "str list option"
  emojis :: "str list option"
  time_preference :: "str list option"
  typical_length :: "str option"
  emoji_limit :: "nat option"

type_synonym rule_table = "(str \<times> context_rule) list"

definition professional_rule :: context_rule where
  "professional_rule = \<lparr>
     context_keywords = [
       [1088, 1072, 1073, 1086, 1090, 1072],   \<comment> \<open>rabota\<close>
       [1087, 1088, 1086, 1077, 1082, 1090],   \<comment> \<open>proekt\<close>
       [1079, 1072, 1076, 1072, 1095, 1072],   \<comment> \<open>zadacha\<close>
       [1074, 1089, 1090, 1088, 1077, 1095, 1072],   \<comment> \<open>vstrecha\<close>
       [1082, 1086, 1083, 1083, 1077, 1075, 1072],   \<comment> \<open>kollega\<close>
       [1085, 1072, 1095, 1072, 1083, 1100, 1085, 1080, 1082],   \<comment> \<open>nachalnik\<close>
       [1076, 1077, 1076, 1083, 1072, 1081, 1085],   \<comment> \<open>dedlajn\<close>
       [1086, 1090, 1095, 1077, 1090],   \<comment> \<open>otchet\<close>
       [1087, 1088, 1077, 1079, 1077, 1085, 1090, 1072, 1094, 1080, 1103],   \<comment> \<open>prezentatsiya\<close>
       [1073, 1080, 1079, 1085, 1077, 1089]   \<comment> \<open>biznes\<close>
     ],
     avoid_keywords = Some [
       [1083, 1102, 1073, 1083, 1102],   \<comment> \<open>lyublyu\<close>
       [1086, 1073, 1085, 1080, 1084, 1072, 1102],   \<comment> \<open>obnimayu\<close>
       [1094, 1077, 1083, 1091, 1102],   \<comment> \<open>tseluyu\<close>
       [1093, 1072, 45, 1093, 1072]   \<comment> \<open>kha-kha\<close>
     ],
     emojis = None,
     time_preference = Some [ascii ''morning'', ascii ''afternoon''],
     typical_length = Some (ascii ''medium''),
     emoji_limit = Some 1 \<rparr>"

definition family_rule :: context_rule where
  "family_rule = \<lparr>
     context_keywords = [
       [1084, 1072, 1084, 1072],   \<comment> \<open>mama\<close>
       [1087, 1072, 1087, 1072],   \<comment> \<open>papa\<close>
       [1088, 1086, 1076, 1080, 1090, 1077, 1083, 1080],   \<comment> \<open>roditeli\<close>
       [1073, 1088, 1072, 1090],   \<comment> \<open>brat\<close>
       [1089, 1077, 1089, 1090, 1088, 1072],   \<comment> \<open>sestra\<close>
       [1089, 1077, 1084, 1100, 1103],   \<comment> \<open>semya\<close>
       [1088, 1086, 1076, 1085, 1099, 1077],   \<comment> \<open>rodnye\<close>
       [1076, 1077, 1090, 1080],   \<comment> \<open>deti\<close>
       [1074, 1085, 1091, 1082, 1080],   \<comment> \<open>vnuki\<close>
       [1073, 1072, 1073, 1091, 1096, 1082, 1072],   \<comment> \<open>babushka\<close>
       [1076, 1077, 1076, 1091, 1096, 1082, 1072]   \<comment> \<open>dedushka\<close>
     ],
     avoid_keywords = Some [
       [1091, 1074, 1072, 1078, 1072, 1077, 1084, 1099, 1081],   \<comment> \<open>uvazhaemyj\<close>
       [1082, 1086, 1083, 1083, 1077, 1075, 1072],   \<comment> \<open>kollega\<close>
       [1087, 1088, 1086, 1090, 1086, 1082, 1086, 1083]   \<comment> \<open>protokol\<close>
     ],
     emojis = None,
     time_preference = Some [ascii ''evening'', ascii ''weekend''],
     typical_length = Some (ascii ''short''),
     emoji_limit = Some 3 \<rparr>"

definition romantic_rule :: context_rule where
  "romantic_rule = \<lparr>
     context_keywords = [
       [1083, 1102, 1073, 1083, 1102],   \<comment> \<open>lyublyu\<close>
       [1086, 1073, 1086, 1078, 1072, 1102],   \<comment> \<open>obozhayu\<close>
       [1076, 1086, 1088, 1086, 1075, 1086, 1081],   \<comment> \<open>dorogoj\<close>
       [1084, 1080, 1083, 1099, 1081],   \<comment> \<open>milyj\<close>
       [1083, 1102, 1073, 1080, 1084, 1099, 1081],   \<comment> \<open>lyubimyj\<close>
       [1088, 1086, 1084, 1072, 1085, 1090, 1080, 1082, 1072],   \<comment> \<open>romantika\<close>
       [1086, 1090, 1085, 1086, 1096, 1077, 1085, 1080, 1103],   \<comment> \<open>otnosheniya\<close>
       [1095, 1091, 1074, 1089, 1090, 1074, 1072],   \<comment> \<open>chuvstva\<close>
       [1089, 1077, 1088, 1076, 1094, 1077],   \<comment> \<open>serdtse\<close>
       [1087, 1086, 1094, 1077, 1083, 1091, 1081]   \<comment> \<open>potseluj\<close>
     ],
     avoid_keywords = None,
     emojis = Some [
       [10084, 65039],   \<comment> \<open>U+2764 U+FE0F\<close>
       [128149],   \<comment> \<open>U+1F495\<close>
       [128536],   \<comment> \<open>U+1F618\<close>
       [128139],   \<comment> \<open>U+1F48B\<close>
       [128525],   \<comment> \<open>U+1F60D\<close>
       [129392]   \<comment> \<open>U+1F970\<close>
     ],
     time_preference = Some [ascii ''evening'', ascii ''night''],
     typical_length = Some (ascii ''medium''),
     emoji_limit = Some 2 \<rparr>"

definition friendly_rule :: context_rule where
  "friendly_rule = \<lparr>
     context_keywords = [
       [1076, 1088, 1091, 1075],   \<comment> \<open>drug\<close>
       [1087, 1086, 1076, 1088, 1091, 1075, 1072],   \<comment> \<open>podruga\<close>
       [1087, 1088, 1080, 1103, 1090, 1077, 1083, 1100],   \<comment> \<open>priyatel\<close>
       [1090, 1091, 1089, 1086, 1074, 1082, 1072],   \<comment> \<open>tusovka\<close>
       [1074, 1089, 1090, 1088, 1077, 1095, 1072],   \<comment> \<open>vstrecha\<close>
       [1082, 1072, 1092, 1077],   \<comment> \<open>kafe\<close>
       [1082, 1080, 1085, 1086],   \<comment> \<open>kino\<close>
       [1087, 1088, 1086, 1075, 1091, 1083, 1082, 1072],   \<comment> \<open>progulka\<close>
       [1074, 1077, 1095, 1077, 1088, 1080, 1085, 1082, 1072]   \<comment> \<open>vecherinka\<close>
     ],
     avoid_keywords = None,
     emojis = Some [
       [128522],   \<comment> \<open>U+1F60A\<close>
       [128514],   \<comment> \<open>U+1F602\<close>
       [128526],   \<comment> \<open>U+1F60E\<close>
       [128077],   \<comment> \<open>U+1F44D\<close>
       [128075]   \<comment> \<open>U+1F44B\<close>
     ],
     time_preference = Some [ascii ''afternoon'', ascii ''evening''],
     typical_length = Some (ascii ''short''),
     emoji_limit = Some 3 \<rparr>"

definition creative_rule :: context_rule where
  "creative_rule = \<lparr>
     context_keywords = [
       [1080, 1076, 1077, 1103],   \<comment> \<open>ideya\<close>
       [1090, 1074, 1086, 1088, 1095, 1077, 1089, 1090, 1074, 1086],   \<comment> \<open>tvorchestvo\<close>
       [1074, 1076, 1086, 1093, 1085, 1086, 1074, 1077, 1085, 1080, 1077],   \<comment> \<open>vdokhnovenie\<close>
       [1087, 1088, 1086, 1077, 1082, 1090],   \<comment> \<open>proekt\<close>
       [1080, 1089, 1082, 1091, 1089, 1089, 1090, 1074, 1086],   \<comment> \<open>iskusstvo\<close>
       [1084, 1091, 1079, 1099, 1082, 1072],   \<comment> \<open>muzyka\<close>
       [1088, 1080, 1089, 1091, 1085, 1086, 1082],   \<comment> \<open>risunok\<close>
       [1087, 1080, 1089, 1072, 1090, 1100],   \<comment> \<open>pisat\<close>
       [1089, 1086, 1079, 1076, 1072, 1074, 1072, 1090, 1100],   \<comment> \<open>sozdavat\<close>
       [1082, 1088, 1077, 1072, 1090, 1080, 1074]   \<comment> \<open>kreativ\<close>
     ],
     avoid_keywords = None,
     emojis = None,
     time_preference = Some [ascii ''night'', ascii ''flexible''],
     typical_length = Some (ascii ''long''),
     emoji_limit = Some 2 \<rparr>"

text \<open>\<open>_build_context_rules\<close>: the five contexts, in the order of the dictionary literal.\<close>

definition build_context_rules :: rule_table where
  "build_context_rules =
     [(ascii ''professional'', professional_rule),
      (ascii ''family'', family_rule),
      (ascii ''romantic'', romantic_rule),
      (ascii ''friendly'', friendly_rule),
      (ascii ''creative'', creative_rule)]"

record weights =
  w_keyword_match :: real
  w_dialog_history :: real
  w_time_of_day :: real
  w_user_preferences :: real

definition router_weights :: weights where
  "router_weights = \<lparr> w_keyword_match = 0.4, w_dialog_history = 0.3,
                       w_time_of_day = 0.1, w_user_preferences = 0.2 \<rparr>"

text \<open>\<open>sum(self.weights.values())\<close>\<close>

definition max_possible_score :: real where
  "max_possible_score =
     w_keyword_match router_weights + w_dialog_history router_weights
     + w_time_of_day router_weights + w_user_preferences router_weights"

subsection \<open>Signal extractors\<close>

record message_analysis =
  ma_length :: nat
  has_questions :: bool
  has_exclamations :: bool
  emoji_count :: nat
  has_context_keywords :: bool
  detected_keyword :: "str option"
  ma_detected_context :: "str option"

text \<open>
  The nested loop of \<open>_analyze_message\<close>: the first context, in table order, one of whose
  keywords occurs, with the first such keyword.
\<close>

fun first_keyword_match :: "rule_table \<Rightarrow> str \<Rightarrow> (str \<times> str) option" where
  "first_keyword_match [] text_lower = None"
| "first_keyword_match ((context_name, rules) # rest) text_lower =
     (case find (\<lambda>keyword. py_in keyword text_lower) (context_keywords rules) of
        Some keyword \<Rightarrow> Some (keyword, context_name)
      | None \<Rightarrow> first_keyword_match rest text_lower)"

definition analyze_message :: "rule_table \<Rightarrow> str \<Rightarrow> message_analysis option" where
  "analyze_message table message =
     (if message = [] then None
      else
        let text_lower = py_lower message;
            found = first_keyword_match table text_lower
        in Some \<lparr> ma_length = length (py_split message),
                  has_questions = (63 \<in> set message),
                  has_exclamations = (33 \<in> set message),
                  emoji_count = count_emojis message,
                  has_context_keywords = (found \<noteq> None),
                  detected_keyword = map_option fst found,
                  ma_detected_context = map_option snd found \<rparr>)"

record history_analysis =
  recent_context :: str
  context_frequency :: real

text \<open>
  For each message, each context of the table one of whose keywords occurs in the
  lower-cased message (the inner \<open>break\<close> leaves the keyword loop only).
\<close>

definition matched_contexts :: "rule_table \<Rightarrow> str \<Rightarrow> str list" where
  "matched_contexts table msg =
     map fst (filter (\<lambda>entry. any_keyword_in (context_keywords (snd entry)) msg) table)"

definition collect_recent_contexts :: "rule_table \<Rightarrow> str list \<Rightarrow> str list" where
  "collect_recent_contexts table msgs = concat (map (matched_contexts table) msgs)"

definition analyze_history :: "rule_table \<Rightarrow> str list \<Rightarrow> history_analysis option" where
  "analyze_history table history =
     (if history = [] then None
      else
        let recent_messages = (if length history > 5 then last_n 5 history else history);
            recent_contexts = collect_recent_contexts table recent_messages
        in (case most_common 1 (Counter recent_contexts) of
              [] \<Rightarrow> None
            | most # _ \<Rightarrow>
                Some \<lparr> recent_context = fst most,
                       context_frequency = real (snd most) / real (length recent_messages) \<rparr>))"

record time_info =
  ti_hour :: "int option"
  ti_weekday :: "int option"
  ti_is_holiday :: "bool option"

record time_analysis =
  current_period :: str
  ta_hour :: int
  ta_weekday :: "int option"
  is_weekend :: "bool option"
  period_adjustment :: "str option"
  ta_is_holiday :: "bool option"

definition analyze_time :: "time_info \<Rightarrow> time_analysis option" where
  "analyze_time ti =
     (case ti_hour ti of
        None \<Rightarrow> None
      | Some hour \<Rightarrow>
          let period =
                (if 6 \<le> hour \<and> hour < 12 then ascii ''morning''
                 else if 12 \<le> hour \<and> hour < 18 then ascii ''afternoon''
                 else if 18 \<le> hour \<and> hour < 23 then ascii ''evening''
                 else ascii ''night'');
              a0 = \<lparr> current_period = period, ta_hour = hour, ta_weekday = None,
                     is_weekend = None, period_adjustment = None, ta_is_holiday = None \<rparr>;
              a1 = (case ti_weekday ti of
                      None \<Rightarrow> a0
                    | Some weekday \<Rightarrow>
                        if weekday \<ge> 5
                        then a0\<lparr> ta_weekday := Some weekday, is_weekend := Some True,
                                 period_adjustment := Some (ascii ''more_casual'') \<rparr>
                        else a0\<lparr> ta_weekday := Some weekday \<rparr>);
              a2 = (if ti_is_holiday ti = Some True
                    then a1\<lparr> ta_is_holiday := Some True,
                             period_adjustment := Some (ascii ''festive'') \<rparr>
                    else a1)
          in Some a2)"

record preferences =
  fav_contexts :: "str list option"
  avoid_contexts :: "str list option"
  communication_style :: "str option"

record preferences_analysis =
  pa_fav_contexts :: "str list option"
  pa_avoid_contexts :: "str list option"
  pa_style :: "str option"

definition analyze_preferences :: "preferences \<Rightarrow> preferences_analysis" where
  "analyze_preferences prefs =
     \<lparr> pa_fav_contexts = fav_contexts prefs, pa_avoid_contexts = avoid_contexts prefs,
       pa_style = communication_style prefs \<rparr>"

text \<open>The empty dictionary \<open>{}\<close> of preference signals.\<close>

definition no_preferences :: preferences_analysis where
  "no_preferences = \<lparr> pa_fav_contexts = None, pa_avoid_contexts = None, pa_style = None \<rparr>"

subsection \<open>Scoring\<close>

definition calculate_keyword_score :: "str \<Rightarrow> str list \<Rightarrow> real" where
  "calculate_keyword_score message kws =
     (if message = [] \<or> kws = [] then 0
      else min (real (count_matches kws (py_lower message)) * 0.3) 1)"

definition calculate_avoid_score :: "str \<Rightarrow> str list \<Rightarrow> real" where
  "calculate_avoid_score message avoid_words =
     (if message = [] \<or> avoid_words = [] then 0
      else min (real (count_matches avoid_words (py_lower message)) * 0.2) 1)"

text \<open>\<open>d.get(key, [])\<close> on an optional list.\<close>

definition get_list :: "'a list option \<Rightarrow> 'a list" where
  "get_list v = (case v of None \<Rightarrow> [] | Some xs \<Rightarrow> xs)"

text \<open>The body of the scoring loop of \<open>route_context\<close>, for one entry of the table.\<close>

definition context_score ::
  "str \<Rightarrow> context_rule \<Rightarrow> str \<Rightarrow> history_analysis option \<Rightarrow> time_analysis option
   \<Rightarrow> preferences_analysis \<Rightarrow> real" where
  "context_score context_name rules message history_an time_an preferences_an =
     (let s0 = 0;
          keyword_score = calculate_keyword_score message (context_keywords rules);
          s1 = s0 + keyword_score * w_keyword_match router_weights;
          s2 = (case history_an of
                  Some h \<Rightarrow>
                    if recent_context h = context_name
                    then s1 + 0.3 * w_dialog_history router_weights else s1
                | None \<Rightarrow> s1);
          s3 = (case time_an of
                  Some t \<Rightarrow>
                    if current_period t \<in> set (get_list (time_preference rules))
                    then s2 + 0.2 * w_time_of_day router_weights else s2
                | None \<Rightarrow> s2);
          s4 = (case pa_fav_contexts preferences_an of
                  Some fav \<Rightarrow>
                    if context_name \<in> set fav
                    then s3 + 0.3 * w_user_preferences router_weights else s3
                | None \<Rightarrow> s3);
          avoid_score = calculate_avoid_score message (get_list (avoid_keywords rules))
      in s4 - avoid_score * 0.2)"

definition context_scores ::
  "rule_table \<Rightarrow> str \<Rightarrow> history_analysis option \<Rightarrow> time_analysis option
   \<Rightarrow> preferences_analysis \<Rightarrow> (str \<times> real) list" where
  "context_scores table message history_an time_an preferences_an =
     map (\<lambda>entry. (fst entry,
                    context_score (fst entry) (snd entry) message history_an time_an
                      preferences_an)) table"

text \<open>
  The optional arguments of \<open>route_context\<close>: \<open>None\<close>, an empty list and an empty
  dictionary are all false, and then the signal is the empty dictionary.
\<close>

definition history_signal :: "rule_table \<Rightarrow> str list option \<Rightarrow> history_analysis option" where
  "history_signal table dialog_history =
     (case dialog_history of
        None \<Rightarrow> None
      | Some h \<Rightarrow> if h = [] then None else analyze_history table h)"

definition time_signal :: "time_info option \<Rightarrow> time_analysis option" where
  "time_signal ti = (case ti of None \<Rightarrow> None | Some t \<Rightarrow> analyze_time t)"

definition preferences_signal :: "preferences option \<Rightarrow> preferences_analysis" where
  "preferences_signal prefs =
     (case prefs of None \<Rightarrow> no_preferences | Some p \<Rightarrow> analyze_preferences p)"

text \<open>The dictionary \<open>context_scores\<close> that \<open>route_context\<close> builds from its arguments.\<close>

definition route_scores ::
  "rule_table \<Rightarrow> str \<Rightarrow> str list option \<Rightarrow> preferences option \<Rightarrow> time_info option
   \<Rightarrow> (str \<times> real) list" where
  "route_scores table message dialog_history user_preferences ti =
     context_scores table message (history_signal table dialog_history) (time_signal ti)
       (preferences_signal user_preferences)"

text \<open>
  \<open>sorted(context_scores.items(), key=lambda x: x[1], reverse=True)\<close>: a stable sort by
  descending score, entries of equal score staying in table order.
\<close>

definition sorted_contexts :: "(str \<times> real) list \<Rightarrow> (str \<times> real) list" where
  "sorted_contexts scores = sort_key (\<lambda>x. - snd x) scores"

subsection \<open>Suggestions\<close>

record suggestions =
  tone :: str
  sg_length :: str
  sg_emoji_limit :: nat
  key_phrases :: "str list"
  avoid :: "str list"
  response_type :: "str option"

text \<open>\<open>message_analysis.get(key)\<close> as a truth value: false on the empty dictionary.\<close>

definition ma_flag :: "(message_analysis \<Rightarrow> bool) \<Rightarrow> message_analysis option \<Rightarrow> bool" where
  "ma_flag field ma = (case ma of None \<Rightarrow> False | Some a \<Rightarrow> field a)"

definition tones :: "(str \<times> str) list" where
  "tones =
     [(ascii ''professional'', ascii ''formal_respectful''),
      (ascii ''family'', ascii ''warm_caring''),
      (ascii ''romantic'', ascii ''tender_affectionate''),
      (ascii ''friendly'', ascii ''casual_friendly''),
      (ascii ''creative'', ascii ''expressive_inspirational'')]"

definition suggest_tone :: "str \<Rightarrow> message_analysis option \<Rightarrow> str" where
  "suggest_tone context ma =
     (let base_tone = (case map_of tones context of None \<Rightarrow> ascii ''neutral'' | Some t \<Rightarrow> t)
      in if ma_flag has_exclamations ma
            \<and> context \<in> set [ascii ''friendly'', ascii ''creative'']
         then ascii ''enthusiastic_'' @ base_tone
         else base_tone)"

definition phrases :: "(str \<times> str list) list" where
  "phrases =
     [(ascii ''professional'',
       [[1041, 1083, 1072, 1075, 1086, 1076, 1072, 1088, 1102, 32, 1079, 1072, 32, 1089, 1086,
         1086, 1073, 1097, 1077, 1085, 1080, 1077],   \<comment> \<open>Blagodaryu za soobshchenie\<close>
        [1055, 1088, 1077, 1076, 1083, 1072, 1075, 1072, 1102, 32, 1088, 1072, 1089, 1089,
         1084, 1086, 1090, 1088, 1077, 1090, 1100],   \<comment> \<open>Predlagayu rassmotret\<close>
        [1057, 1086, 1075, 1083, 1072, 1089, 1086, 1074, 1072, 1085, 1086],   \<comment> \<open>Soglasovano\<close>
        [1055, 1088, 1086, 1096, 1091, 32, 1091, 1090, 1086, 1095, 1085, 1080, 1090,
         1100]]),   \<comment> \<open>Proshu utochnit\<close>
      (ascii ''family'',
       [[1055, 1088, 1080, 1074, 1077, 1090, 44, 32, 1082, 1072, 1082, 32, 1076, 1077, 1083,
         1072, 63],   \<comment> \<open>Privet, kak dela?\<close>
        [1054, 1073, 1085, 1080, 1084, 1072, 1102, 32, 1082, 1088, 1077, 1087, 1082,
         1086],   \<comment> \<open>Obnimayu krepko\<close>
        [1062, 1077, 1083, 1091, 1102],   \<comment> \<open>Tseluyu\<close>
        [1057, 1082, 1091, 1095, 1072, 1102, 32, 1087, 1086, 32, 1074, 1072,
         1084]]),   \<comment> \<open>Skuchayu po vam\<close>
      (ascii ''romantic'',
       [[1055, 1088, 1080, 1074, 1077, 1090, 44, 32, 1084, 1086, 1081, 32, 1076, 1086, 1088,
         1086, 1075, 1086, 1081],   \<comment> \<open>Privet, moj dorogoj\<close>
        [1057, 1082, 1091, 1095, 1072, 1102, 32, 1087, 1086, 32, 1090, 1077, 1073,
         1077],   \<comment> \<open>Skuchayu po tebe\<close>
        [1051, 1102, 1073, 1083, 1102, 32, 1090, 1077, 1073, 1103],   \<comment> \<open>Lyublyu tebya\<close>
        [1058, 1099, 32, 1091, 32, 1084, 1077, 1085, 1103, 32, 1089, 1072, 1084, 1099, 1081,
         32, 1083, 1091, 1095, 1096, 1080, 1081]]),   \<comment> \<open>Ty u menya samyj luchshij\<close>
      (ascii ''friendly'',
       [[1055, 1088, 1080, 1074, 1077, 1090, 33],   \<comment> \<open>Privet!\<close>
        [1050, 1072, 1082, 32, 1076, 1077, 1083, 1072, 63],   \<comment> \<open>Kak dela?\<close>
        [1063, 1090, 1086, 32, 1085, 1086, 1074, 1086, 1075, 1086, 63],   \<comment> \<open>Chto novogo?\<close>
        [1044, 1072, 1074, 1072, 1081, 32, 1074, 1089, 1090, 1088, 1077, 1090, 1080, 1084,
         1089, 1103]]),   \<comment> \<open>Davaj vstretimsya\<close>
      (ascii ''creative'',
       [[1048, 1085, 1090, 1077, 1088, 1077, 1089, 1085, 1072, 1103, 32, 1084, 1099, 1089,
         1083, 1100, 33],   \<comment> \<open>Interesnaya mysl!\<close>
        [1042, 1076, 1086, 1093, 1085, 1086, 1074, 1083, 1103, 1102, 1097,
         1077],   \<comment> \<open>Vdokhnovlyayushche\<close>
        [1050, 1088, 1077, 1072, 1090, 1080, 1074, 1085, 1099, 1081, 32, 1087, 1086, 1076,
         1093, 1086, 1076],   \<comment> \<open>Kreativnyj podkhod\<close>
        [1055, 1088, 1086, 1076, 1086, 1083, 1078, 1072, 1077, 1084, 32, 1090, 1074, 1086,
         1088, 1080, 1090, 1100]])]"   \<comment> \<open>Prodolzhaem tvorit\<close>

definition suggest_key_phrases :: "str \<Rightarrow> str list" where
  "suggest_key_phrases context =
     (case map_of phrases context of
        None \<Rightarrow> [[1055, 1088, 1080, 1074, 1077, 1090, 33],   \<comment> \<open>Privet!\<close>
                 [1050, 1072, 1082, 32, 1076, 1077, 1083, 1072, 63]]   \<comment> \<open>Kak dela?\<close>
      | Some ps \<Rightarrow> ps)"

text \<open>
  \<open>_generate_suggestions\<close>; of \<open>all_factors\<close> it reads the time signals only.
  \<open>self.context_rules.get(context, {})\<close> gives the defaults for a context that is not in
  the table.
\<close>

definition generate_suggestions ::
  "rule_table \<Rightarrow> str \<Rightarrow> message_analysis option \<Rightarrow> time_analysis option \<Rightarrow> suggestions" where
  "generate_suggestions table context ma time_an =
     (let rules = map_of table context;
          s0 = \<lparr> tone = suggest_tone context ma,
                 sg_length = (case Option.bind rules typical_length of
                                None \<Rightarrow> ascii ''medium'' | Some l \<Rightarrow> l),
                 sg_emoji_limit = (case Option.bind rules emoji_limit of
                                     None \<Rightarrow> 2 | Some n \<Rightarrow> n),
                 key_phrases = suggest_key_phrases context,
                 avoid = take 3 (get_list (Option.bind rules avoid_keywords)),
                 response_type = None \<rparr>;
          s1 = (if ma_flag has_questions ma then s0\<lparr> response_type := Some (ascii ''answer'') \<rparr>
                else if ma_flag has_exclamations ma
                then s0\<lparr> response_type := Some (ascii ''reaction'') \<rparr>
                else s0)
      in (case time_an of
            None \<Rightarrow> s1
          | Some t \<Rightarrow>
              if current_period t = ascii ''night'' \<and> context \<noteq> ascii ''professional''
              then s1\<lparr> tone := ascii ''more_relaxed'' \<rparr>
              else s1))"

subsection \<open>\<open>route_context\<close>\<close>

record context_route =
  primary_context :: str
  secondary_contexts :: "str list"
  confidence :: real
  reasoning :: str
  route_suggestions :: suggestions

definition reason_keywords :: str where
  "reason_keywords =
     [1054, 1073, 1085, 1072, 1088, 1091, 1078, 1077, 1085, 1099, 32, 1082, 1083, 1102, 1095,
      1077, 1074, 1099, 1077, 32, 1089, 1083, 1086, 1074, 1072, 32, 1082, 1086, 1085, 1090,
      1077, 1082, 1089, 1090, 1072]"   \<comment> \<open>Obnaruzheny klyuchevye slova konteksta\<close>

definition reason_history :: str where
  "reason_history =
     [1057, 1086, 1074, 1087, 1072, 1076, 1072, 1077, 1090, 32, 1089, 32, 1085, 1077, 1076,
      1072, 1074, 1085, 1080, 1084, 32, 1082, 1086, 1085, 1090, 1077, 1082, 1089, 1090, 1086,
      1084, 32, 1076, 1080, 1072, 1083, 1086, 1075, 1072]"   \<comment> \<open>Sovpadaet s nedavnim kontekstom dialoga\<close>

definition reason_time :: str where
  "reason_time =
     [1055, 1086, 1076, 1093, 1086, 1076, 1080, 1090, 32, 1076, 1083, 1103, 32, 1090, 1077,
      1082, 1091, 1097, 1077, 1075, 1086, 32, 1074, 1088, 1077, 1084, 1077, 1085, 1080, 32,
      1089, 1091, 1090, 1086, 1082]"   \<comment> \<open>Podkhodit dlya tekushchego vremeni sutok\<close>

definition reason_default :: str where
  "reason_default =
     [1054, 1087, 1088, 1077, 1076, 1077, 1083, 1077, 1085, 1086, 32, 1087, 1086, 32, 1086,
      1073, 1097, 1080, 1084, 32, 1087, 1088, 1080, 1079, 1085, 1072, 1082, 1072,
      1084]"   \<comment> \<open>Opredeleno po obshchim priznakam\<close>

text \<open>
  The primary context and the confidence: the head of the ranking, or the default on an
  empty ranking.
\<close>

definition select_primary :: "(str \<times> real) list \<Rightarrow> str \<times> real" where
  "select_primary ranked =
     (case ranked of
        [] \<Rightarrow> (ascii ''friendly'', 0.5)
      | (primary, primary_score) # _ \<Rightarrow>
          (primary, min (primary_score / max_possible_score) 1))"

text \<open>The secondary contexts: the second of the ranking when its score is close.\<close>

definition select_secondary :: "(str \<times> real) list \<Rightarrow> str list" where
  "select_secondary ranked =
     (case ranked of
        (primary, primary_score) # (second_context, second_score) # _ \<Rightarrow>
          if \<bar>primary_score - second_score\<bar> < 0.1 then [second_context] else []
      | _ \<Rightarrow> [])"

text \<open>
  \<open>route_context\<close>. The last test of the reasoning reads
  \<open>self.context_rules[primary_context]\<close>, which raises \<open>KeyError\<close> when the primary context
  is not a key of the table; both operands of \<open>in\<close> are evaluated, whatever the time
  signals are.
\<close>

definition route_context ::
  "rule_table \<Rightarrow> str \<Rightarrow> str list option \<Rightarrow> preferences option \<Rightarrow> time_info option
   \<Rightarrow> py_error + context_route" where
  "route_context table message dialog_history user_preferences ti =
     (let message_an = analyze_message table message;
          history_an = history_signal table dialog_history;
          time_an = time_signal ti;
          ranked = sorted_contexts
                     (route_scores table message dialog_history user_preferences ti);
          primary = fst (select_primary ranked);
          conf = snd (select_primary ranked);
          secondary = select_secondary ranked;
          sugg = generate_suggestions table primary message_an time_an;
          parts1 = (if ma_flag has_context_keywords message_an then [reason_keywords] else []);
          parts2 = (if map_option recent_context history_an = Some primary
                    then parts1 @ [reason_history] else parts1)
      in (case map_of table primary of
            None \<Rightarrow> Inl (KeyError primary)
          | Some primary_rules \<Rightarrow>
              let parts3 =
                    (if (case time_an of
                           None \<Rightarrow> False
                         | Some t \<Rightarrow>
                             current_period t \<in> set (get_list (time_preference primary_rules)))
                     then parts2 @ [reason_time] else parts2);
                  reasoning_text =
                    (if parts3 \<noteq> [] then py_join [59, 32] parts3 else reason_default)
              in Inr \<lparr> primary_context = primary,
                       secondary_contexts = secondary,
                       confidence = conf,
                       reasoning = reasoning_text,
                       route_suggestions = sugg \<rparr>))"

subsection \<open>\<open>validate_context_switch\<close>\<close>

definition compatibility :: "(str \<times> str list) list" where
  "compatibility =
     [(ascii ''professional'', [ascii ''friendly'', ascii ''creative'']),
      (ascii ''family'', [ascii ''friendly'', ascii ''romantic'']),
      (ascii ''romantic'', [ascii ''family'', ascii ''friendly'']),
      (ascii ''friendly'',
       [ascii ''professional'', ascii ''family'', ascii ''romantic'', ascii ''creative'']),
      (ascii ''creative'', [ascii ''professional'', ascii ''friendly''])]"

definition reason_same :: str where
  "reason_same =
     [1058, 1086, 1090, 32, 1078, 1077, 32, 1082, 1086, 1085, 1090, 1077, 1082, 1089,
      1090]"   \<comment> \<open>Tot zhe kontekst\<close>

definition reason_abrupt :: "str \<Rightarrow> str \<Rightarrow> str" where
  "reason_abrupt current_context proposed_context =
     [1056, 1077, 1079, 1082, 1080, 1081, 32, 1087, 1077, 1088, 1077, 1093, 1086, 1076, 32,
      1089, 32]   \<comment> \<open>Rezkij perekhod s\<close>
     @ current_context @ [32, 1085, 1072, 32]   \<comment> \<open>na\<close>
     @ proposed_context"

definition reason_smooth :: str where
  "reason_smooth =
     [1055, 1083, 1072, 1074, 1085, 1099, 1081, 32, 1087, 1077, 1088, 1077, 1093, 1086, 1076,
      32, 1085, 1072, 32, 1086, 1089, 1085, 1086, 1074, 1077, 32, 1080, 1089, 1090, 1086,
      1088, 1080, 1080]"   \<comment> \<open>Plavnyj perekhod na osnove istorii\<close>

definition reason_permitted :: str where
  "reason_permitted =
     [1055, 1077, 1088, 1077, 1093, 1086, 1076, 32, 1088, 1072, 1079, 1088, 1077, 1096, 1077,
      1085]"   \<comment> \<open>Perekhod razreshen\<close>

definition validate_context_switch :: "rule_table \<Rightarrow> str \<Rightarrow> str \<Rightarrow> str list \<Rightarrow> bool \<times> str" where
  "validate_context_switch table current_context proposed_context dialog_history =
     (if current_context = proposed_context then (True, reason_same)
      else if proposed_context \<notin> set (get_list (map_of compatibility current_context))
      then (False, reason_abrupt current_context proposed_context)
      else if dialog_history \<noteq> [] \<and> length dialog_history > 3
              \<and> proposed_context \<in> set (collect_recent_contexts table (last_n 3 dialog_history))
      then (True, reason_smooth)
      else (True, reason_permitted))"

section \<open>The style analyzer (\<open>style_analyzer.py\<close>)\<close>

record context_pattern =
  formality_words :: "str list"
  emotional_words :: "str list"
  humor_words :: "str list"
  cp_typical_length :: str
  common_endings :: "str list"

text \<open>\<open>_load_context_patterns\<close>, in the order of the dictionary literal.\<close>

definition load_context_patterns :: "(str \<times> context_pattern) list" where
  "load_context_patterns =
     [(ascii ''professional'', \<lparr>
         formality_words = [
           [1091, 1074, 1072, 1078, 1072, 1077, 1084, 1099, 1081],   \<comment> \<open>uvazhaemyj\<close>
           [1082, 1086, 1083, 1083, 1077, 1075, 1072],   \<comment> \<open>kollega\<close>
           [1087, 1088, 1086, 1096, 1091],   \<comment> \<open>proshu\<close>
           [1087, 1088, 1077, 1076, 1083, 1072, 1075, 1072, 1102],   \<comment> \<open>predlagayu\<close>
           [1089, 1086, 1075, 1083, 1072, 1089, 1086, 1074, 1072, 1085, 1086]   \<comment> \<open>soglasovano\<close>
         ],
         emotional_words = [],
         humor_words = [],
         cp_typical_length = ascii ''medium'',
         common_endings = [
           [1057, 32, 1091, 1074, 1072, 1078, 1077, 1085, 1080, 1077, 1084],   \<comment> \<open>S uvazheniem\<close>
           [1041, 1083, 1072, 1075, 1086, 1076, 1072, 1088, 1102],   \<comment> \<open>Blagodaryu\<close>
           [1057, 32, 1085, 1072, 1080, 1083, 1091, 1095, 1096, 1080, 1084, 1080, 32, 1087,
            1086, 1078, 1077, 1083, 1072, 1085, 1080, 1103, 1084, 1080]   \<comment> \<open>S nailuchshimi pozhelaniyami\<close>
         ] \<rparr>),
      (ascii ''family'', \<lparr>
         formality_words = [],
         emotional_words = [
           [1083, 1102, 1073, 1083, 1102],   \<comment> \<open>lyublyu\<close>
           [1086, 1073, 1085, 1080, 1084, 1072, 1102],   \<comment> \<open>obnimayu\<close>
           [1094, 1077, 1083, 1091, 1102],   \<comment> \<open>tseluyu\<close>
           [1089, 1082, 1091, 1095, 1072, 1102]   \<comment> \<open>skuchayu\<close>
         ],
         humor_words = [
           [1093, 1072, 45, 1093, 1072],   \<comment> \<open>kha-kha\<close>
           [1089, 1084, 1077, 1096, 1085, 1086],   \<comment> \<open>smeshno\<close>
           [1087, 1088, 1080, 1082, 1086, 1083]   \<comment> \<open>prikol\<close>
         ],
         cp_typical_length = ascii ''short'',
         common_endings = [
           [1062, 1077, 1083, 1091, 1102],   \<comment> \<open>Tseluyu\<close>
           [1054, 1073, 1085, 1080, 1084, 1072, 1102],   \<comment> \<open>Obnimayu\<close>
           [1051, 1102, 1073, 1083, 1102]   \<comment> \<open>Lyublyu\<close>
         ] \<rparr>),
      (ascii ''romantic'', \<lparr>
         formality_words = [],
         emotional_words = [
           [1083, 1102, 1073, 1083, 1102],   \<comment> \<open>lyublyu\<close>
           [1086, 1073, 1086, 1078, 1072, 1102],   \<comment> \<open>obozhayu\<close>
           [1085, 1077, 1078, 1085, 1099, 1081],   \<comment> \<open>nezhnyj\<close>
           [1088, 1086, 1084, 1072, 1085, 1090, 1080, 1082],   \<comment> \<open>romantik\<close>
           [1084, 1077, 1095, 1090, 1072]   \<comment> \<open>mechta\<close>
         ],
         humor_words = [],
         cp_typical_length = ascii ''medium'',
         common_endings = [
           [1062, 1077, 1083, 1091, 1102],   \<comment> \<open>Tseluyu\<close>
           [1054, 1073, 1085, 1080, 1084, 1072, 1102],   \<comment> \<open>Obnimayu\<close>
           [1058, 1074, 1086, 1081, 47, 1058, 1074, 1086, 1103]   \<comment> \<open>Tvoj/Tvoya\<close>
         ] \<rparr>),
      (ascii ''friendly'', \<lparr>
         formality_words = [],
         emotional_words = [
           [1082, 1083, 1072, 1089, 1089],   \<comment> \<open>klass\<close>
           [1086, 1090, 1083, 1080, 1095, 1085, 1086],   \<comment> \<open>otlichno\<close>
           [1089, 1091, 1087, 1077, 1088],   \<comment> \<open>super\<close>
           [1082, 1088, 1091, 1090, 1086]   \<comment> \<open>kruto\<close>
         ],
         humor_words = [
           [1083, 1086, 1083],   \<comment> \<open>lol\<close>
           [1082, 1077, 1082],   \<comment> \<open>kek\<close>
           [1088, 1078, 1072, 1082, 1072],   \<comment> \<open>rzhaka\<close>
           [1087, 1088, 1080, 1082, 1086, 1083]   \<comment> \<open>prikol\<close>
         ],
         cp_typical_length = ascii ''short'',
         common_endings = [
           [1055, 1086, 1082, 1072],   \<comment> \<open>Poka\<close>
           [1044, 1086, 32, 1089, 1074, 1103, 1079, 1080],   \<comment> \<open>Do svyazi\<close>
           [1059, 1076, 1072, 1095, 1080]   \<comment> \<open>Udachi\<close>
         ] \<rparr>),
      (ascii ''creative'', \<lparr>
         formality_words = [],
         emotional_words = [
           [1074, 1076, 1086, 1093, 1085, 1086, 1074, 1077, 1085, 1080, 1077],   \<comment> \<open>vdokhnovenie\<close>
           [1082, 1088, 1077, 1072, 1090, 1080, 1074],   \<comment> \<open>kreativ\<close>
           [1090, 1074, 1086, 1088, 1095, 1077, 1089, 1090, 1074, 1086]   \<comment> \<open>tvorchestvo\<close>
         ],
         humor_words = [
           [1080, 1088, 1086, 1085, 1080, 1103],   \<comment> \<open>ironiya\<close>
           [1089, 1072, 1088, 1082, 1072, 1079, 1084],   \<comment> \<open>sarkazm\<close>
           [1096, 1091, 1090, 1082, 1072]   \<comment> \<open>shutka\<close>
         ],
         cp_typical_length = ascii ''long'',
         common_endings = [
           [1058, 1074, 1086, 1088, 1095, 1077, 1089, 1082, 1080, 1093, 32, 1091, 1089, 1087,
            1077, 1093, 1086, 1074],   \<comment> \<open>Tvorcheskikh uspekhov\<close>
           [1042, 1076, 1086, 1093, 1085, 1086, 1074, 1077, 1085, 1080, 1103]   \<comment> \<open>Vdokhnoveniya\<close>
         ] \<rparr>)]"


subsection \<open>Category checks\<close>

definition is_work_related :: "str \<Rightarrow> bool" where
  "is_work_related text =
     any_keyword_in [
       [1088, 1072, 1073, 1086, 1090, 1072],   \<comment> \<open>rabota\<close>
       [1087, 1088, 1086, 1077, 1082, 1090],   \<comment> \<open>proekt\<close>
       [1079, 1072, 1076, 1072, 1095, 1072],   \<comment> \<open>zadacha\<close>
       [1074, 1089, 1090, 1088, 1077, 1095, 1072],   \<comment> \<open>vstrecha\<close>
       [1082, 1086, 1083, 1083, 1077, 1075, 1072],   \<comment> \<open>kollega\<close>
       [1085, 1072, 1095, 1072, 1083, 1100, 1085, 1080, 1082],   \<comment> \<open>nachalnik\<close>
       [1076, 1077, 1076, 1083, 1072, 1081, 1085],   \<comment> \<open>dedlajn\<close>
       [1086, 1090, 1095, 1077, 1090],   \<comment> \<open>otchet\<close>
       [1087, 1088, 1077, 1079, 1077, 1085, 1090, 1072, 1094, 1080, 1103]   \<comment> \<open>prezentatsiya\<close>
     ] text"

definition is_family_related :: "str \<Rightarrow> bool" where
  "is_family_related text =
     any_keyword_in [
       [1084, 1072, 1084, 1072],   \<comment> \<open>mama\<close>
       [1087, 1072, 1087, 1072],   \<comment> \<open>papa\<close>
       [1088, 1086, 1076, 1080, 1090, 1077, 1083, 1080],   \<comment> \<open>roditeli\<close>
       [1073, 1088, 1072, 1090],   \<comment> \<open>brat\<close>
       [1089, 1077, 1089, 1090, 1088, 1072],   \<comment> \<open>sestra\<close>
       [1089, 1077, 1084, 1100, 1103],   \<comment> \<open>semya\<close>
       [1088, 1086, 1076, 1085, 1099, 1077],   \<comment> \<open>rodnye\<close>
       [1076, 1077, 1090, 1080],   \<comment> \<open>deti\<close>
       [1074, 1085, 1091, 1082, 1080]   \<comment> \<open>vnuki\<close>
     ] text"

definition is_romantic_related :: "str \<Rightarrow> bool" where
  "is_romantic_related text =
     (let has_keywords = any_keyword_in [
            [1083, 1102, 1073, 1083, 1102],   \<comment> \<open>lyublyu\<close>
            [1086, 1073, 1086, 1078, 1072, 1102],   \<comment> \<open>obozhayu\<close>
            [1076, 1086, 1088, 1086, 1075, 1086, 1081],   \<comment> \<open>dorogoj\<close>
            [1084, 1080, 1083, 1099, 1081],   \<comment> \<open>milyj\<close>
            [1083, 1102, 1073, 1080, 1084, 1099, 1081],   \<comment> \<open>lyubimyj\<close>
            [1088, 1086, 1084, 1072, 1085, 1090, 1080, 1082, 1072],   \<comment> \<open>romantika\<close>
            [1086, 1090, 1085, 1086, 1096, 1077, 1085, 1080, 1103],   \<comment> \<open>otnosheniya\<close>
            [1095, 1091, 1074, 1089, 1090, 1074, 1072],   \<comment> \<open>chuvstva\<close>
            [1089, 1077, 1088, 1076, 1094, 1077]   \<comment> \<open>serdtse\<close>
          ] text;
          has_emojis = list_ex (\<lambda>emoji. py_in emoji text) [
            [10084, 65039],   \<comment> \<open>U+2764 U+FE0F\<close>
            [128149],   \<comment> \<open>U+1F495\<close>
            [128536],   \<comment> \<open>U+1F618\<close>
            [128139],   \<comment> \<open>U+1F48B\<close>
            [128525]   \<comment> \<open>U+1F60D\<close>
          ]
      in has_keywords \<or> has_emojis)"

subsection \<open>Characteristics\<close>

record characteristics =
  formality :: real
  emotionality :: real
  humor_level :: real
  emoji_frequency :: real
  message_length :: str
  contains_questions :: bool
  contains_exclamations :: bool
  word_count :: nat

definition formal_words :: "str list" where
  "formal_words = [
     [1091, 1074, 1072, 1078, 1072, 1077, 1084, 1099, 1081],   \<comment> \<open>uvazhaemyj\<close>
     [1087, 1088, 1086, 1096, 1091],   \<comment> \<open>proshu\<close>
     [1087, 1088, 1077, 1076, 1083, 1072, 1075, 1072, 1102],   \<comment> \<open>predlagayu\<close>
     [1089, 1086, 1075, 1083, 1072, 1089, 1086, 1074, 1072, 1085, 1086],   \<comment> \<open>soglasovano\<close>
     [1076, 1086, 1082, 1091, 1084, 1077, 1085, 1090],   \<comment> \<open>dokument\<close>
     [1076, 1086, 1075, 1086, 1074, 1086, 1088],   \<comment> \<open>dogovor\<close>
     [1089, 1086, 1090, 1088, 1091, 1076, 1085, 1080, 1095, 1077, 1089, 1090, 1074,
      1086],   \<comment> \<open>sotrudnichestvo\<close>
     [1086, 1092, 1080, 1094, 1080, 1072, 1083, 1100, 1085, 1086]   \<comment> \<open>ofitsialno\<close>
   ]"

text \<open>
  \<open>_calculate_formality\<close>: here \<open>word in formal_words\<close> is membership of a whole word in
  the list. The division is the source's, guarded by \<open>if not words\<close>.
\<close>

definition calculate_formality :: "str \<Rightarrow> py_error + real" where
  "calculate_formality text =
     (let words = py_split (py_lower text)
      in if words = [] then Inr 0
         else
           let formal_count = length (filter (\<lambda>word. word \<in> set formal_words) words)
           in (case py_truediv (real formal_count) (real (length words)) of
                 Inl e \<Rightarrow> Inl e
               | Inr q \<Rightarrow> Inr (min (q * 3) 1)))"

definition emotional_word_list :: "str list" where
  "emotional_word_list = [
     [1083, 1102, 1073, 1083, 1102],   \<comment> \<open>lyublyu\<close>
     [1086, 1073, 1086, 1078, 1072, 1102],   \<comment> \<open>obozhayu\<close>
     [1085, 1077, 1085, 1072, 1074, 1080, 1078, 1091],   \<comment> \<open>nenavizhu\<close>
     [1079, 1083, 1102, 1089, 1100],   \<comment> \<open>zlyus\<close>
     [1088, 1072, 1076, 1091, 1102, 1089, 1100],   \<comment> \<open>raduyus\<close>
     [1075, 1088, 1091, 1097, 1091],   \<comment> \<open>grushchu\<close>
     [1074, 1086, 1083, 1085, 1091, 1102, 1089, 1100],   \<comment> \<open>volnuyus\<close>
     [1073, 1077, 1089, 1087, 1086, 1082, 1086, 1102, 1089, 1100],   \<comment> \<open>bespokoyus\<close>
     [1074, 1086, 1089, 1093, 1080, 1097, 1072, 1102, 1089, 1100]   \<comment> \<open>voskhishchayus\<close>
   ]"

definition emotional_emojis :: "str list" where
  "emotional_emojis = [
     [10084, 65039],   \<comment> \<open>U+2764 U+FE0F\<close>
     [128525],   \<comment> \<open>U+1F60D\<close>
     [128546],   \<comment> \<open>U+1F622\<close>
     [128514],   \<comment> \<open>U+1F602\<close>
     [128545],   \<comment> \<open>U+1F621\<close>
     [129392],   \<comment> \<open>U+1F970\<close>
     [128557]   \<comment> \<open>U+1F62D\<close>
   ]"

definition calculate_emotionality :: "str \<Rightarrow> py_error + real" where
  "calculate_emotionality text =
     (let words = py_split (py_lower text);
          word_part =
            (if words \<noteq> []
             then (case py_truediv
                          (real (length (filter (\<lambda>word. word \<in> set emotional_word_list) words)))
                          (real (length words)) of
                     Inl e \<Rightarrow> Inl e
                   | Inr q \<Rightarrow> Inr (0 + q * 2))
             else Inr 0)
      in (case word_part of
            Inl e \<Rightarrow> Inl e
          | Inr s1 \<Rightarrow>
              let emoji_count = length (filter (\<lambda>emoji. py_in emoji text) emotional_emojis);
                  s2 = s1 + real emoji_count * 0.1;
                  exclamation_count = length (filter (\<lambda>c. c = 33) text);
                  s3 = s2 + min (real exclamation_count * 0.05) 0.3
              in Inr (min s3 1)))"

definition humor_indicators :: "str list" where
  "humor_indicators = [
     [1093, 1072, 45, 1093, 1072],   \<comment> \<open>kha-kha\<close>
     [1093, 1077, 45, 1093, 1077],   \<comment> \<open>khe-khe\<close>
     [1083, 1086, 1083],   \<comment> \<open>lol\<close>
     [1082, 1077, 1082],   \<comment> \<open>kek\<close>
     [1089, 1084, 1077, 1096, 1085, 1086],   \<comment> \<open>smeshno\<close>
     [1087, 1088, 1080, 1082, 1086, 1083],   \<comment> \<open>prikol\<close>
     [1096, 1091, 1090, 1082, 1072],   \<comment> \<open>shutka\<close>
     [1102, 1084, 1086, 1088],   \<comment> \<open>yumor\<close>
     [1072, 1085, 1077, 1082, 1076, 1086, 1090],   \<comment> \<open>anekdot\<close>
     [128514],   \<comment> \<open>U+1F602\<close>
     [129315],   \<comment> \<open>U+1F923\<close>
     [128516]   \<comment> \<open>U+1F604\<close>
   ]"

text \<open>A loop \<open>for word in words: if word in text: score += step\<close>.\<close>

definition add_matches :: "real \<Rightarrow> str list \<Rightarrow> str \<Rightarrow> real \<Rightarrow> real" where
  "add_matches step ws text score =
     foldl (\<lambda>acc word. if py_in word text then acc + step else acc) score ws"

definition calculate_humor_level :: "str \<Rightarrow> real" where
  "calculate_humor_level text = min (add_matches 0.2 humor_indicators (py_lower text) 0) 1"

definition calculate_emoji_frequency :: "str \<Rightarrow> py_error + real" where
  "calculate_emoji_frequency text =
     (let n_emojis = count_emojis text
      in if text = [] then Inr 0
         else (case py_truediv (real n_emojis) (real (length text)) of
                 Inl e \<Rightarrow> Inl e
               | Inr q \<Rightarrow> Inr (min (q * 100) 1)))"

definition classify_length :: "str \<Rightarrow> str" where
  "classify_length text =
     (let n = length (py_split text)
      in if n < 5 then ascii ''short'' else if n < 20 then ascii ''medium'' else ascii ''long'')"

subsection \<open>Suggested response style\<close>

record response_style =
  rs_tone :: str
  rs_emoji_limit :: nat
  rs_length :: str
  rs_key_phrases :: "str list"

definition friendly_style :: response_style where
  "friendly_style = \<lparr>
     rs_tone = ascii ''casual'', rs_emoji_limit = 3, rs_length = ascii ''short'',
     rs_key_phrases = [
       [1055, 1088, 1080, 1074, 1077, 1090],   \<comment> \<open>Privet\<close>
       [1050, 1072, 1082, 32, 1076, 1077, 1083, 1072],   \<comment> \<open>Kak dela\<close>
       [1063, 1090, 1086, 32, 1085, 1086, 1074, 1086, 1075, 1086],   \<comment> \<open>Chto novogo\<close>
       [1044, 1072, 1074, 1072, 1081, 32, 1089, 1086, 1079, 1074, 1086, 1085, 1080, 1084,
        1089, 1103]   \<comment> \<open>Davaj sozvonimsya\<close>
     ] \<rparr>"

definition style_suggestions :: "(str \<times> response_style) list" where
  "style_suggestions =
     [(ascii ''professional'', \<lparr>
         rs_tone = ascii ''formal'', rs_emoji_limit = 0, rs_length = ascii ''medium'',
         rs_key_phrases = [
           [1041, 1083, 1072, 1075, 1086, 1076, 1072, 1088, 1102],   \<comment> \<open>Blagodaryu\<close>
           [1057, 1086, 1075, 1083, 1072, 1089, 1086, 1074, 1072, 1085, 1086],   \<comment> \<open>Soglasovano\<close>
           [1055, 1088, 1077, 1076, 1083, 1072, 1075, 1072, 1102],   \<comment> \<open>Predlagayu\<close>
           [1055, 1088, 1086, 1096, 1091, 32, 1088, 1072, 1089, 1089, 1084, 1086, 1090, 1088,
            1077, 1090, 1100]   \<comment> \<open>Proshu rassmotret\<close>
         ] \<rparr>),
      (ascii ''family'', \<lparr>
         rs_tone = ascii ''warm'', rs_emoji_limit = 3, rs_length = ascii ''short'',
         rs_key_phrases = [
           [1062, 1077, 1083, 1091, 1102],   \<comment> \<open>Tseluyu\<close>
           [1054, 1073, 1085, 1080, 1084, 1072, 1102],   \<comment> \<open>Obnimayu\<close>
           [1051, 1102, 1073, 1083, 1102],   \<comment> \<open>Lyublyu\<close>
           [1057, 1082, 1091, 1095, 1072, 1102]   \<comment> \<open>Skuchayu\<close>
         ] \<rparr>),
      (ascii ''romantic'', \<lparr>
         rs_tone = ascii ''tender'', rs_emoji_limit = 2, rs_length = ascii ''medium'',
         rs_key_phrases = [
           [1052, 1080, 1083, 1099, 1081],   \<comment> \<open>Milyj\<close>
           [1044, 1086, 1088, 1086, 1075, 1086, 1081],   \<comment> \<open>Dorogoj\<close>
           [1051, 1102, 1073, 1083, 1102],   \<comment> \<open>Lyublyu\<close>
           [1057, 1082, 1091, 1095, 1072, 1102, 32, 1087, 1086, 32, 1090, 1077, 1073,
            1077]   \<comment> \<open>Skuchayu po tebe\<close>
         ] \<rparr>),
      (ascii ''friendly'', friendly_style),
      (ascii ''creative'', \<lparr>
         rs_tone = ascii ''expressive'', rs_emoji_limit = 2, rs_length = ascii ''long'',
         rs_key_phrases = [
           [1048, 1085, 1090, 1077, 1088, 1077, 1089, 1085, 1086],   \<comment> \<open>Interesno\<close>
           [1050, 1088, 1077, 1072, 1090, 1080, 1074, 1085, 1086],   \<comment> \<open>Kreativno\<close>
           [1042, 1076, 1086, 1093, 1085, 1086, 1074, 1083, 1103, 1102, 1097,
            1077],   \<comment> \<open>Vdokhnovlyayushche\<close>
           [1058, 1074, 1086, 1088, 1095, 1077, 1089, 1082, 1080]   \<comment> \<open>Tvorcheski\<close>
         ] \<rparr>)]"

definition suggest_response_style :: "str \<Rightarrow> characteristics \<Rightarrow> response_style" where
  "suggest_response_style context ch =
     (let base_suggestion =
            (case map_of style_suggestions context of None \<Rightarrow> friendly_style | Some b \<Rightarrow> b);
          adapted1 =
            (if emotionality ch > 0.7 then base_suggestion\<lparr> rs_tone := ascii ''emotional'' \<rparr>
             else if formality ch > 0.7
             then base_suggestion\<lparr> rs_tone := ascii ''very_formal'' \<rparr>
             else base_suggestion)
      in if emoji_frequency ch > 0.5
         then adapted1\<lparr> rs_emoji_limit := min (rs_emoji_limit adapted1 + 2) 5 \<rparr>
         else adapted1)"

subsection \<open>\<open>analyze_context\<close>\<close>

text \<open>
  The result dictionary of \<open>analyze_context\<close>: on an empty text it has the keys
  \<open>detected_context\<close>, \<open>confidence\<close> and \<open>suggested_contexts\<close> only, otherwise
  \<open>detected_context\<close>, \<open>confidence\<close>, \<open>characteristics\<close> and \<open>suggested_responses\<close>.
\<close>

record analysis =
  detected_context :: str
  an_confidence :: real
  an_characteristics :: "characteristics option"
  suggested_responses :: "response_style option"
  suggested_contexts :: "str list option"

definition pattern_score :: "context_pattern \<Rightarrow> str \<Rightarrow> real" where
  "pattern_score patterns text_lower =
     add_matches 0.2 (humor_words patterns) text_lower
       (add_matches 0.2 (emotional_words patterns) text_lower
          (add_matches 0.3 (formality_words patterns) text_lower 0))"

text \<open>\<open>max(items, key=...)\<close>: the first item of maximal key.\<close>

fun py_max_by :: "('a \<Rightarrow> real) \<Rightarrow> 'a \<Rightarrow> 'a list \<Rightarrow> 'a" where
  "py_max_by key best [] = best"
| "py_max_by key best (x # xs) =
     (if key x > key best then py_max_by key x xs else py_max_by key best xs)"

definition scored_context :: "str \<Rightarrow> str" where
  "scored_context text_lower =
     (case map (\<lambda>entry. (fst entry, pattern_score (snd entry) text_lower))
             load_context_patterns of
        [] \<Rightarrow> ascii ''friendly''
      | first # rest \<Rightarrow> fst (py_max_by snd first rest))"

definition analyze_context :: "str \<Rightarrow> str option \<Rightarrow> py_error + analysis" where
  "analyze_context text dialog_context =
     (if text = []
      then Inr \<lparr> detected_context = ascii ''unknown'', an_confidence = 0,
                 an_characteristics = None, suggested_responses = None,
                 suggested_contexts = Some [] \<rparr>
      else
        let text_lower = py_lower text;
            primary0 =
              (case dialog_context of
                 None \<Rightarrow> scored_context text_lower
               | Some d \<Rightarrow>
                   if d \<noteq> [] \<and> d \<in> set (map fst load_context_patterns) then d
                   else scored_context text_lower);
            primary =
              (if is_work_related text then ascii ''professional''
               else if is_family_related text then ascii ''family''
               else if is_romantic_related text then ascii ''romantic''
               else primary0)
        in (case calculate_formality text of
              Inl e \<Rightarrow> Inl e
            | Inr f \<Rightarrow>
                (case calculate_emotionality text of
                   Inl e \<Rightarrow> Inl e
                 | Inr em \<Rightarrow>
                     (case calculate_emoji_frequency text of
                        Inl e \<Rightarrow> Inl e
                      | Inr ef \<Rightarrow>
                          let ch = \<lparr> formality = f, emotionality = em,
                                     humor_level = calculate_humor_level text,
                                     emoji_frequency = ef,
                                     message_length = classify_length text,
                                     contains_questions = (63 \<in> set text),
                                     contains_exclamations = (33 \<in> set text),
                                     word_count = length (py_split text) \<rparr>
                          in Inr \<lparr> detected_context = primary, an_confidence = 0.8,
                                   an_characteristics = Some ch,
                                   suggested_responses =
                                     Some (suggest_response_style primary ch),
                                   suggested_contexts = None \<rparr>))))"

subsection \<open>\<open>extract_style_signature\<close>\<close>











section \<open>Specification-side notions and fixtures\<close>




text \<open>The keywords of a context of the table, none for a context that is not in it.\<close>

definition table_keywords :: "rule_table \<Rightarrow> str \<Rightarrow> str list" where
  "table_keywords table context =
     (case map_of table context of None \<Rightarrow> [] | Some rules \<Rightarrow> context_keywords rules)"

text \<open>Some keyword of the context occurs in one of the last three entries of the history.\<close>

definition keyword_in_recent :: "rule_table \<Rightarrow> str \<Rightarrow> str list \<Rightarrow> bool" where
  "keyword_in_recent table context history =
     list_ex (\<lambda>msg. any_keyword_in (table_keywords table context) msg) (last_n 3 history)"


text \<open>The keyword \<open>dedlajn\<close>, and the message \<open>dedlajn podruga\<close>.\<close>

definition deadline :: str where
  "deadline = [1076, 1077, 1076, 1083, 1072, 1081, 1085]"


text \<open>
  Two histories that mention \<open>rabota\<close>, a keyword of \<open>professional\<close>, in their last entry:
  one of a single entry, one of four.
\<close>

definition history_work :: "str list" where
  "history_work = [[1088, 1072, 1073, 1086, 1090, 1072]]"

definition history_long :: "str list" where
  "history_long = [[], [], [], [1088, 1072, 1073, 1086, 1090, 1072]]"






section \<open>Properties\<close>

subsection \<open>Structure of \<open>route_context\<close>\<close>

lemma route_context_Inr:
  assumes "map_of table (fst (select_primary (sorted_contexts (route_scores table m h p t))))
           = Some pr"
  shows "\<exists>r. route_context table m h p t = Inr r
     \<and> primary_context r = fst (select_primary (sorted_contexts (route_scores table m h p t)))
     \<and> confidence r = snd (select_primary (sorted_contexts (route_scores table m h p t)))
     \<and> secondary_contexts r = select_secondary (sorted_contexts (route_scores table m h p t))"
  using assms by (simp add: route_context_def Let_def)

lemma map_fst_route_scores: "map fst (route_scores table m h p t) = map fst table"
  by (simp add: route_scores_def context_scores_def comp_def)

lemma route_scores_nonempty: "table \<noteq> [] \<Longrightarrow> route_scores table m h p t \<noteq> []"
  by (simp add: route_scores_def context_scores_def)

lemma sorted_contexts_set: "set (sorted_contexts scores) = set scores"
  by (simp add: sorted_contexts_def)

lemma sorted_contexts_head_max:
  assumes "sorted_contexts scores = x # rest" and "y \<in> set scores"
  shows "snd y \<le> snd x"
proof -
  have "sorted (map (\<lambda>x. - snd x) (sorted_contexts scores))"
    by (simp add: sorted_contexts_def)
  moreover have "y \<in> set (sorted_contexts scores)"
    using assms(2) by (simp add: sorted_contexts_set)
  ultimately show ?thesis
    using assms(1) by auto
qed

lemma sorted_contexts_nonempty: "scores \<noteq> [] \<Longrightarrow> sorted_contexts scores \<noteq> []"
  by (metis sorted_contexts_set set_empty)




lemma ranked_cases:
  assumes "table \<noteq> []"
  obtains best rest where "sorted_contexts (route_scores table m h p t) = best # rest"
  using sorted_contexts_nonempty[OF route_scores_nonempty[OF assms], of m h p t]
  by (cases "sorted_contexts (route_scores table m h p t)") auto

lemma max_possible_score_one: "max_possible_score = 1"
  by (simp add: max_possible_score_def router_weights_def)

text \<open>
  On a table that is not empty the head of the ranking is a key of the table, so the
  lookup of the reasoning succeeds and a route is returned.
\<close>

lemma route_context_returns:
  assumes "sorted_contexts (route_scores table m h p t) = best # rest"
  shows "\<exists>r. route_context table m h p t = Inr r
     \<and> primary_context r = fst best
     \<and> confidence r = min (snd best) 1
     \<and> secondary_contexts r = select_secondary (best # rest)"
proof -
  have "best \<in> set (route_scores table m h p t)"
    using assms sorted_contexts_set[of "route_scores table m h p t"] by auto
  then have "fst best \<in> set (map fst (route_scores table m h p t))"
    by auto
  then have "fst best \<in> fst ` set table"
    by (simp add: map_fst_route_scores)
  then obtain pr where "map_of table (fst best) = Some pr"
    by (metis domD dom_map_of_conv_image_fst)
  then have "map_of table (fst (select_primary (sorted_contexts (route_scores table m h p t))))
             = Some pr"
    using assms by (cases best) (simp add: select_primary_def)
  from route_context_Inr[OF this] show ?thesis
    using assms by (cases best) (simp add: select_primary_def max_possible_score_one)
qed

lemma build_context_rules_nonempty: "build_context_rules \<noteq> []"
  by (simp add: build_context_rules_def)

lemma build_context_rules_distinct: "distinct (map fst build_context_rules)"
  by (simp add: build_context_rules_def ascii_def)


subsection \<open>Confidence\<close>

lemma keyword_score_nonneg: "0 \<le> calculate_keyword_score m kws"
  by (simp add: calculate_keyword_score_def)

lemma context_score_nonneg:
  assumes "avoid_keywords r = None"
  shows "0 \<le> context_score n r m ha ta pa"
  using assms keyword_score_nonneg[of m "context_keywords r"]
  by (simp add: context_score_def get_list_def calculate_avoid_score_def router_weights_def
      Let_def split: option.splits)

lemma romantic_score_in_scores:
  "(ascii ''romantic'', context_score (ascii ''romantic'') romantic_rule m
       (history_signal build_context_rules h) (time_signal t) (preferences_signal p))
   \<in> set (route_scores build_context_rules m h p t)"
  by (simp add: route_scores_def context_scores_def build_context_rules_def)

text \<open>
  C1. For every message and every choice of history, preferences and time information,
  \<open>route_context\<close> on the rule table of the router returns a route whose confidence lies
  in [0, 1]. The scores of \<open>professional\<close> and \<open>family\<close> can be negative, but the context
  \<open>romantic\<close> has no avoid-keywords, so the top score is never below zero.
\<close>

theorem route_context_confidence_in_unit_interval:
  "\<exists>r. route_context build_context_rules m h p t = Inr r
       \<and> 0 \<le> confidence r \<and> confidence r \<le> 1"
proof -
  obtain best rest
    where ranked: "sorted_contexts (route_scores build_context_rules m h p t) = best # rest"
    using ranked_cases[OF build_context_rules_nonempty] by blast
  have "0 \<le> context_score (ascii ''romantic'') romantic_rule m
       (history_signal build_context_rules h) (time_signal t) (preferences_signal p)"
    by (rule context_score_nonneg) (simp add: romantic_rule_def)
  also have "\<dots> \<le> snd best"
    using sorted_contexts_head_max[OF ranked romantic_score_in_scores] by simp
  finally have "0 \<le> snd best" .
  then show ?thesis
    using route_context_returns[OF ranked] by auto
qed

subsection \<open>Scores without history, time and preferences\<close>












subsection \<open>Secondary contexts\<close>




subsection \<open>\<open>analyze_context\<close> returns\<close>

lemma calculate_formality_total: "\<exists>f. calculate_formality text = Inr f"
  by (simp add: calculate_formality_def py_truediv_def Let_def)

lemma calculate_emotionality_total: "\<exists>f. calculate_emotionality text = Inr f"
  by (simp add: calculate_emotionality_def py_truediv_def Let_def)

lemma calculate_emoji_frequency_total: "\<exists>f. calculate_emoji_frequency text = Inr f"
  by (simp add: calculate_emoji_frequency_def py_truediv_def Let_def)

lemma analyze_context_nonempty:
  assumes "text \<noteq> []"
  shows "\<exists>r. analyze_context text dc = Inr r \<and> an_confidence r = 0.8
     \<and> an_characteristics r \<noteq> None
     \<and> detected_context r =
         (if is_work_related text then ascii ''professional''
          else if is_family_related text then ascii ''family''
          else if is_romantic_related text then ascii ''romantic''
          else (case dc of
                  None \<Rightarrow> scored_context (py_lower text)
                | Some d \<Rightarrow>
                    if d \<noteq> [] \<and> d \<in> set (map fst load_context_patterns) then d
                    else scored_context (py_lower text)))"
proof -
  obtain f where f: "calculate_formality text = Inr f"
    using calculate_formality_total by blast
  obtain em where em: "calculate_emotionality text = Inr em"
    using calculate_emotionality_total by blast
  obtain ef where ef: "calculate_emoji_frequency text = Inr ef"
    using calculate_emoji_frequency_total by blast
  show ?thesis
    using assms by (simp add: analyze_context_def f em ef Let_def)
qed

subsection \<open>The keyword \<open>dedlajn\<close>\<close>



















subsection \<open>The analyzer's results\<close>

text \<open>
  C7. On the empty string \<open>analyze_context\<close> returns the neutral result: the context
  \<open>unknown\<close>, confidence 0 and no characteristics (the result has no such entry). And on
  every text, with or without a known context, it returns a result: the two divisions of
  the characteristics are never by zero.
\<close>

theorem analyze_context_empty_neutral:
  "(\<exists>r. analyze_context [] dc = Inr r \<and> detected_context r = ascii ''unknown''
        \<and> an_characteristics r = None \<and> an_confidence r = 0
        \<and> suggested_contexts r = Some [])
   \<and> (\<exists>r. analyze_context text dc2 = Inr r)"
proof (cases "text = []")
  case True
  then show ?thesis
    by (simp add: analyze_context_def)
next
  case False
  then show ?thesis
    using analyze_context_nonempty[of "text" dc2] by (auto simp add: analyze_context_def)
qed

text \<open>
  C10. On every text that is not empty, with or without a known context,
  \<open>analyze_context\<close> returns the confidence 0.8: a constant, not derived from the scores.
\<close>

theorem analyze_context_confidence_constant:
  "text \<noteq> [] \<Longrightarrow> \<exists>r. analyze_context text dc = Inr r \<and> an_confidence r = 0.8"
  using analyze_context_nonempty by blast

theorem analyze_context_confidence_constant_witness:
  "deadline \<noteq> []
   \<and> (\<exists>r. analyze_context deadline (Some (ascii ''family'')) = Inr r \<and> an_confidence r = 0.8)"
proof -
  have ne: "deadline \<noteq> []"
    by (simp add: deadline_def)
  show ?thesis
    using ne analyze_context_confidence_constant[OF ne, of "Some (ascii ''family'')"] by simp
qed

subsection \<open>The transition validator\<close>

text \<open>
  C5. \<open>validate_context_switch("professional", "family", [])\<close> is refused,
  \<open>validate_context_switch("friendly", "professional", [])\<close> is allowed, and a switch from
  any context to itself is allowed whatever the history (and whatever the rule table).
\<close>

theorem validate_context_switch_fixtures:
  "fst (validate_context_switch build_context_rules
          (ascii ''professional'') (ascii ''family'') []) = False
   \<and> fst (validate_context_switch build_context_rules
          (ascii ''friendly'') (ascii ''professional'') []) = True
   \<and> fst (validate_context_switch table c c history) = True"
  by (simp add: validate_context_switch_def compatibility_def ascii_def get_list_def)

lemma in_matched_contexts:
  assumes "distinct (map fst table)"
  shows "c \<in> set (matched_contexts table msg)
         \<longleftrightarrow> any_keyword_in (table_keywords table c) msg"
proof
  assume "c \<in> set (matched_contexts table msg)"
  then obtain r where "(c, r) \<in> set table" and "any_keyword_in (context_keywords r) msg"
    by (auto simp add: matched_contexts_def)
  then show "any_keyword_in (table_keywords table c) msg"
    using assms by (simp add: table_keywords_def)
next
  assume a: "any_keyword_in (table_keywords table c) msg"
  then obtain r where r: "map_of table c = Some r"
    by (cases "map_of table c") (simp_all add: table_keywords_def any_keyword_in_def)
  then have "(c, r) \<in> set table"
    by (rule map_of_SomeD)
  moreover have "any_keyword_in (context_keywords r) msg"
    using a r by (simp add: table_keywords_def)
  ultimately show "c \<in> set (matched_contexts table msg)"
    by (force simp add: matched_contexts_def)
qed

lemma in_collect_recent_contexts:
  assumes "distinct (map fst table)"
  shows "c \<in> set (collect_recent_contexts table msgs)
         \<longleftrightarrow> list_ex (\<lambda>msg. any_keyword_in (table_keywords table c) msg) msgs"
  by (auto simp add: collect_recent_contexts_def in_matched_contexts[OF assms] list_ex_iff)

text \<open>
  C8, as amended. For an allowed switch between two different contexts, the reason is
  the smooth-transition one exactly when the history has more than three entries and a
  keyword of the proposed context occurs in one of its last three; otherwise it is the
  generic one.
\<close>

theorem validate_context_switch_reason:
  assumes "current \<noteq> proposed"
    and "proposed \<in> set (get_list (map_of compatibility current))"
  shows "validate_context_switch build_context_rules current proposed history =
           (True, if length history > 3
                     \<and> keyword_in_recent build_context_rules proposed history
                  then reason_smooth else reason_permitted)"
  using assms
  by (auto simp add: validate_context_switch_def keyword_in_recent_def
      in_collect_recent_contexts[OF build_context_rules_distinct])

lemma history_work_recent:
  "keyword_in_recent build_context_rules (ascii ''professional'') history_work"
  by (simp add: keyword_in_recent_def history_work_def last_n_def table_keywords_def
      build_context_rules_def professional_rule_def any_keyword_in_def py_in_def
      py_lower_def lower_cp_def)

lemma history_long_recent:
  "keyword_in_recent build_context_rules (ascii ''professional'') history_long"
  by (simp add: keyword_in_recent_def history_long_def last_n_def table_keywords_def
      build_context_rules_def professional_rule_def any_keyword_in_def py_in_def
      py_lower_def lower_cp_def)

text \<open>
  From \<open>friendly\<close> to \<open>professional\<close>, with the history of the single entry \<open>rabota\<close>: a
  keyword of the proposed context occurs in the last three entries, yet the reason is the
  generic one, because the history has no more than three entries.
\<close>

theorem short_history_not_smooth:
  "ascii ''friendly'' \<noteq> ascii ''professional''
   \<and> ascii ''professional'' \<in> set (get_list (map_of compatibility (ascii ''friendly'')))
   \<and> keyword_in_recent build_context_rules (ascii ''professional'') history_work
   \<and> snd (validate_context_switch build_context_rules (ascii ''friendly'')
            (ascii ''professional'') history_work) = reason_permitted
   \<and> reason_permitted \<noteq> reason_smooth"
  using history_work_recent
  by (simp add: validate_context_switch_def compatibility_def get_list_def ascii_def
      history_work_def reason_permitted_def reason_smooth_def)

theorem validate_context_switch_reason_witness:
  "ascii ''friendly'' \<noteq> ascii ''professional''
   \<and> ascii ''professional'' \<in> set (get_list (map_of compatibility (ascii ''friendly'')))
   \<and> validate_context_switch build_context_rules (ascii ''friendly'') (ascii ''professional'')
        history_long = (True, reason_smooth)
   \<and> validate_context_switch build_context_rules (ascii ''friendly'') (ascii ''professional'')
        history_work = (True, reason_permitted)"
proof -
  have a: "ascii ''friendly'' \<noteq> ascii ''professional''"
    by (simp add: ascii_def)
  have b: "ascii ''professional'' \<in> set (get_list (map_of compatibility (ascii ''friendly'')))"
    by (simp add: compatibility_def get_list_def ascii_def)
  show ?thesis
    using a b validate_context_switch_reason[OF a b, of history_long]
      validate_context_switch_reason[OF a b, of history_work] history_long_recent
    by (simp add: history_long_def history_work_def)
qed

subsection \<open>The style signature\<close>























subsection \<open>The router on an empty rule table\<close>

text \<open>
  C6. On an empty rule table \<open>route_context\<close> selects the default \<open>friendly\<close> with
  confidence 0.5, but then reads \<open>self.context_rules[primary_context]\<close> while it builds the
  reasoning: the call ends in \<open>KeyError('friendly')\<close> for every message and every choice of
  the optional arguments, so no route is returned.
\<close>

theorem route_context_empty_table_raises:
  "route_context [] message dialog_history user_preferences ti
   = Inl (KeyError (ascii ''friendly''))"
  by (simp add: route_context_def route_scores_def context_scores_def sorted_contexts_def
      select_primary_def Let_def)

end
